theory Spec2Isabelle
  imports Main
begin

section \<open>Data model of \<open>ArtworkList.tsx\<close>\<close>

text \<open>
  The component keeps its data in React state cells. Each cell becomes a field of the
  record \<open>state\<close>; the things the component writes to outside of its own cells (the toast
  widget, the overlay panel, the console, the browser's local storage, the HTTP requests
  it issues) are further fields of the same record, so that every effect of a handler is
  visible in the state the handler returns.

  JavaScript numbers are modelled as \<open>int\<close>: every number the component handles is an
  integer (identifiers, page numbers, counts), and the model is exact below \<open>2 ^ 53\<close>.

  The text the user types into the count field is any JavaScript string, so it is a list
  of UTF-16 code units (\<open>js_text\<close>). The texts the component itself writes (URLs, the
  stored selection, messages) are of the ASCII range and are \<open>string\<close>s.
\<close>

type_synonym js_text = "nat list"

text \<open>The code units of a text of the ASCII range.\<close>

definition utf16 :: "string \<Rightarrow> js_text" where
  "utf16 cs = map of_char cs"

record artwork =
  artwork_id :: int
  title :: string
  place_of_origin :: string
  artist_display :: string
  inscriptions :: "string option"
  date_start :: int
  date_end :: int

text \<open>The field \<open>total\<close> of the source is \<open>total_records\<close> here.\<close>

record pagination_info =
  total_records :: int
  limit :: int
  offset :: int
  total_pages :: int
  current_page :: int

record api_response =
  data :: "artwork list"
  pagination :: pagination_info

datatype sort_order = Ascending | Descending

record lazy_params =
  first :: int
  rows :: int
  page :: int
  sortField :: "string option"
  sortOrder :: "sort_order option"

record toast_message =
  severity :: string
  summary :: string
  detail :: string
  life :: int

text \<open>
  What \<open>await fetch(url)\<close> followed by \<open>await response.json()\<close> can give: the promise
  rejects, the response is not \<open>ok\<close>, the body does not parse, or a response arrives.
\<close>

datatype fetch_result = NetworkError | NotOk | ParseFailure | Ok api_response

record state =
  artworks :: "artwork list"
  loading :: bool
  totalRecords :: int
  lazyParams :: lazy_params
  selectedArtworkIds :: "int list"
  selectAll :: bool
  rowSelection :: js_text
  pendingSelection :: int
  overlayVisible :: bool
  toasts :: "toast_message list"
  console :: "string list"
  localStorage :: "string option"
  requests :: "string list"

definition initial_state :: state where
  "initial_state =
     \<lparr> artworks = [], loading = True, totalRecords = 0,
       lazyParams = \<lparr> first = 0, rows = 12, page = 1, sortField = None, sortOrder = None \<rparr>,
       selectedArtworkIds = [], selectAll = False, rowSelection = [],
       pendingSelection = 0, overlayVisible = False, toasts = [], console = [],
       localStorage = None, requests = [] \<rparr>"

section \<open>JavaScript library functions used by the component\<close>

text \<open>\<open>xs.slice(0, n)\<close>: a negative \<open>n\<close> counts from the end of the array.\<close>

definition slice0 :: "'a list \<Rightarrow> int \<Rightarrow> 'a list" where
  "slice0 xs n =
     (if n < 0 then take (length xs - nat (- n)) xs else take (nat n) xs)"

text \<open>
  \<open>Array.from(new Set(xs))\<close>: a \<open>Set\<close> keeps insertion order, so the first occurrence
  of every element stays where it is and later ones are dropped.
\<close>

definition setToArray :: "'a list \<Rightarrow> 'a list" where
  "setToArray xs = rev (remdups (rev xs))"

text \<open>
  The code units that \<open>parseInt\<close> skips at the start: the white space of ECMAScript
  (tab, vertical tab, form feed, space, no-break space, the byte order mark and the other
  space separators of Unicode) and its line terminators.
\<close>

definition isWhiteSpace :: "nat \<Rightarrow> bool" where
  "isWhiteSpace c =
     (c \<in> set [0x0009, 0x000A, 0x000B, 0x000C, 0x000D, 0x0020, 0x00A0, 0x1680,
                0x2028, 0x2029, 0x202F, 0x205F, 0x3000, 0xFEFF]
      \<or> (0x2000 \<le> c \<and> c \<le> 0x200A))"

definition isDigitUnit :: "nat \<Rightarrow> bool" where
  "isDigitUnit c = (48 \<le> c \<and> c \<le> 57)"

definition unitsToNat :: "js_text \<Rightarrow> nat" where
  "unitsToNat ds = foldl (\<lambda>acc c. 10 * acc + (c - 48)) 0 ds"

definition isDigit :: "char \<Rightarrow> bool" where
  "isDigit c = (48 \<le> (of_char c :: nat) \<and> (of_char c :: nat) \<le> 57)"

definition digitValue :: "char \<Rightarrow> nat" where
  "digitValue c = (of_char c :: nat) - 48"

definition digitsToNat :: "string \<Rightarrow> nat" where
  "digitsToNat ds = foldl (\<lambda>acc c. 10 * acc + digitValue c) 0 ds"

text \<open>
  \<open>parseInt(s, 10)\<close>: leading white space is skipped, one sign (\<open>-\<close> is unit 45, \<open>+\<close> is
  unit 43) is read, and the longest
  run of decimal digits that follows is the value; whatever comes after the digits is
  ignored. With no digit at that place the result is \<open>NaN\<close>, which is \<open>None\<close> here.
  \<open>parseInt\<close> gives \<open>-0\<close> for a string such as \<open>-0.5\<close>; \<open>-0\<close> is neither \<open>NaN\<close> nor below
  zero and acts as \<open>0\<close> in every operation of the component, so it is \<open>0\<close> here.
\<close>

definition parseInt :: "js_text \<Rightarrow> int option" where
  "parseInt s =
     (let s1 = dropWhile isWhiteSpace s;
          sgn_rest = (case s1 of
                        c # r \<Rightarrow> if c = 45 then (- 1, r)
                                 else if c = 43 then (1, r) else (1, s1)
                      | [] \<Rightarrow> (1 :: int, s1));
          z = takeWhile isDigitUnit (snd sgn_rest)
      in if z = [] then None else Some (fst sgn_rest * int (unitsToNat z)))"

text \<open>Decimal text of a number, as a template literal and \<open>JSON.stringify\<close> write it.\<close>

fun natToString :: "nat \<Rightarrow> string" where
  "natToString n =
     (if n < 10 then [char_of (48 + n)]
      else natToString (n div 10) @ [char_of (48 + n mod 10)])"

declare natToString.simps [simp del]

definition numberToString :: "int \<Rightarrow> string" where
  "numberToString i =
     (if i < 0 then CHR ''-'' # natToString (nat (- i)) else natToString (nat i))"

section \<open>Selection handlers\<close>

definition pageIds :: "artwork list \<Rightarrow> int list" where
  "pageIds arts = map artwork_id arts"

text \<open>
  What the checkboxes show: a row's box is ticked when its identifier is selected, the
  header's when every displayed record is. A click hands the opposite of what is shown
  to \<open>onChange\<close> as \<open>e.checked\<close>.
\<close>

definition isSelected :: "state \<Rightarrow> artwork \<Rightarrow> bool" where
  "isSelected s rowData = (artwork_id rowData \<in> set (selectedArtworkIds s))"

definition headerChecked :: "state \<Rightarrow> bool" where
  "headerChecked s = list_all (isSelected s) (artworks s)"

text \<open>The \<open>onChange\<close> of a row's checkbox (\<open>checkboxTemplate\<close>).\<close>

definition checkbox_onChange :: "artwork \<Rightarrow> bool \<Rightarrow> state \<Rightarrow> state" where
  "checkbox_onChange rowData checked s =
     (let newSelection =
            (if checked then selectedArtworkIds s @ [artwork_id rowData]
             else filter (\<lambda>i. i \<noteq> artwork_id rowData) (selectedArtworkIds s))
      in s\<lparr> selectedArtworkIds := newSelection,
            selectAll := (int (length newSelection) = totalRecords s) \<rparr>)"

text \<open>The \<open>onChange\<close> of the header checkbox (\<open>selectAllTemplate\<close>).\<close>

definition selectAll_onChange :: "bool \<Rightarrow> state \<Rightarrow> state" where
  "selectAll_onChange checked s =
     (if checked then
        (let allIds = pageIds (artworks s)
         in s\<lparr> selectedArtworkIds := setToArray (selectedArtworkIds s @ allIds) \<rparr>)
      else
        (let currentPageIds = pageIds (artworks s)
         in s\<lparr> selectedArtworkIds :=
                  filter (\<lambda>i. i \<notin> set currentPageIds) (selectedArtworkIds s) \<rparr>))"

definition invalid_input_toast :: toast_message where
  "invalid_input_toast =
     \<lparr> severity = ''error'', summary = ''Invalid Input'',
       detail = ''Please enter a valid number of rows to select.'', life = 3000 \<rparr>"

definition pending_toast :: "int \<Rightarrow> toast_message" where
  "pending_toast numRows =
     \<lparr> severity = ''info'', summary = ''Selection Pending'',
       detail = ''Selecting '' @ numberToString numRows
                @ '' items. This may span multiple pages.'',
       life = 3000 \<rparr>"

definition handleSubmit :: "state \<Rightarrow> state" where
  "handleSubmit s =
     (case parseInt (rowSelection s) of
        None \<Rightarrow> s\<lparr> toasts := toasts s @ [invalid_input_toast] \<rparr>
      | Some numRows \<Rightarrow>
          if numRows < 0 then s\<lparr> toasts := toasts s @ [invalid_input_toast] \<rparr>
          else
            (let currentPageIds = pageIds (artworks s);
                 len = int (length currentPageIds);
                 remainingSelection =
                   filter (\<lambda>i. i \<notin> set currentPageIds) (selectedArtworkIds s);
                 newSelection =
                   remainingSelection @ slice0 currentPageIds (min numRows len)
             in s\<lparr> selectedArtworkIds := newSelection,
                   pendingSelection := max 0 (numRows - len),
                   selectAll :=
                     (int (length newSelection) + max 0 (numRows - len) = totalRecords s),
                   overlayVisible := False,
                   toasts := (if numRows > len then toasts s @ [pending_toast numRows]
                              else toasts s) \<rparr>))"

section \<open>Page changes and the overlay\<close>

text \<open>The \<open>onChange\<close> of the text field in the overlay.\<close>

definition rowSelection_onChange :: "js_text \<Rightarrow> state \<Rightarrow> state" where
  "rowSelection_onChange v s = s\<lparr> rowSelection := v \<rparr>"

record page_event =
  ev_first :: int
  ev_rows :: int
  ev_page :: int

definition onPage :: "page_event \<Rightarrow> state \<Rightarrow> state" where
  "onPage event s =
     s\<lparr> lazyParams := (lazyParams s)\<lparr> first := ev_first event, rows := ev_rows event,
                                       page := ev_page event + 1 \<rparr> \<rparr>"

definition onSort :: "string \<Rightarrow> sort_order \<Rightarrow> state \<Rightarrow> state" where
  "onSort field ord s =
     s\<lparr> lazyParams := (lazyParams s)\<lparr> sortField := Some field, sortOrder := Some ord \<rparr> \<rparr>"

definition toggleOverlay :: "state \<Rightarrow> state" where
  "toggleOverlay s = s\<lparr> overlayVisible := \<not> overlayVisible s \<rparr>"

section \<open>Fetching\<close>

text \<open>
  The URL that \<open>fetchArtworks\<close> and \<open>fetchNextPage\<close> build; they differ in the page number
  only. A sort field that is \<open>null\<close> or the empty string adds nothing.
\<close>

definition artworksUrl :: "int \<Rightarrow> lazy_params \<Rightarrow> string" where
  "artworksUrl p lp =
     ''https://api.artic.edu/api/v1/artworks?page='' @ numberToString p
     @ ''&limit='' @ numberToString (rows lp)
     @ ''&fields=id,title,place_of_origin,artist_display,inscriptions,date_start,date_end''
     @ (case sortField lp of
          None \<Rightarrow> []
        | Some f \<Rightarrow>
            if f = [] then []
            else ''&sort_by='' @ f
                 @ (if sortOrder lp = Some Descending then '':desc'' else []))"

definition fetch_error_toast :: toast_message where
  "fetch_error_toast =
     \<lparr> severity = ''error'', summary = ''Error'',
       detail = ''Failed to fetch artworks'', life = 3000 \<rparr>"

definition next_page_error_toast :: toast_message where
  "next_page_error_toast =
     \<lparr> severity = ''error'', summary = ''Error'',
       detail = ''Failed to fetch more artworks'', life = 3000 \<rparr>"

text \<open>
  An \<open>async\<close> function is two transitions: the part that runs up to the \<open>await\<close> (it
  issues the request), and the part that runs when the request has settled.
\<close>

definition fetchArtworks_start :: "state \<Rightarrow> state" where
  "fetchArtworks_start s =
     s\<lparr> loading := True,
        requests := requests s @ [artworksUrl (page (lazyParams s)) (lazyParams s)] \<rparr>"

definition fetchArtworks_resolve :: "fetch_result \<Rightarrow> state \<Rightarrow> state" where
  "fetchArtworks_resolve r s =
     (case r of
        Ok d \<Rightarrow>
          s\<lparr> artworks := data d, totalRecords := total_records (pagination d),
             loading := False \<rparr>
      | _ \<Rightarrow>
          s\<lparr> console := console s @ [''An error occurred while fetching artworks:''],
             toasts := toasts s @ [fetch_error_toast],
             loading := False \<rparr>)"

definition fetchNextPage_start :: "state \<Rightarrow> state" where
  "fetchNextPage_start s =
     s\<lparr> requests := requests s @ [artworksUrl (page (lazyParams s) + 1) (lazyParams s)] \<rparr>"

text \<open>
  When the request of \<open>fetchNextPage\<close> settles, the function still sees the values of the
  render it was called in: \<open>pendingSelection\<close>, \<open>lazyParams\<close> and \<open>totalRecords\<close> are read
  from that snapshot \<open>snap\<close>, while the three updater functions (\<open>prev => ...\<close>) work on the
  state \<open>s\<close> of the moment.
\<close>

definition fetchNextPage_resolve :: "state \<Rightarrow> fetch_result \<Rightarrow> state \<Rightarrow> state" where
  "fetchNextPage_resolve snap r s =
     (case r of
        Ok d \<Rightarrow>
          (let nextPage = page (lazyParams snap) + 1;
               newArtworks = data d;
               remainingToSelect =
                 min (pendingSelection snap) (int (length newArtworks));
               newSelectedIds = map artwork_id (slice0 newArtworks remainingToSelect)
           in if remainingToSelect < int (length newArtworks)
                 \<or> nextPage * rows (lazyParams snap) \<ge> totalRecords snap
              then s\<lparr> selectedArtworkIds := selectedArtworkIds s @ newSelectedIds,
                      pendingSelection := 0 \<rparr>
              else s\<lparr> selectedArtworkIds := selectedArtworkIds s @ newSelectedIds,
                      pendingSelection := pendingSelection s - remainingToSelect,
                      lazyParams := (lazyParams s)\<lparr> page := nextPage \<rparr> \<rparr>)
      | _ \<Rightarrow>
          s\<lparr> console := console s @ [''An error occurred while fetching the next page:''],
             toasts := toasts s @ [next_page_error_toast],
             pendingSelection := 0 \<rparr>)"

text \<open>
  An accumulation fetch that settles, with \<open>r\<close>, before anything else happens: the state
  it was started in is also the state its updater functions work on.
\<close>

definition accumulate :: "fetch_result \<Rightarrow> state \<Rightarrow> state" where
  "accumulate r s = fetchNextPage_resolve s r (fetchNextPage_start s)"

text \<open>
  How far the next page's offset is from the total: a call of \<open>fetchNextPage\<close> can move
  the walk to a further page only while this is positive in the render it was made in.
\<close>

definition pagesLeft :: "state \<Rightarrow> nat" where
  "pagesLeft s = nat (totalRecords s - (page (lazyParams s) + 1) * rows (lazyParams s))"

text \<open>
  The test of \<open>fetchNextPage\<close> for its \<open>else\<close> branch, the one that calls
  \<open>setLazyParams\<close>: the whole page was needed and the next offset is short of the total.
\<close>

definition walkGoesOn :: "state \<Rightarrow> api_response \<Rightarrow> bool" where
  "walkGoesOn snap d =
     (\<not> (min (pendingSelection snap) (int (length (data d))) < int (length (data d))
         \<or> (page (lazyParams snap) + 1) * rows (lazyParams snap) \<ge> totalRecords snap))"

section \<open>Persistence\<close>

fun joinWith :: "string \<Rightarrow> string list \<Rightarrow> string" where
  "joinWith sep [] = []"
| "joinWith sep [x] = x"
| "joinWith sep (x # y # ys) = x @ sep @ joinWith sep (y # ys)"

text \<open>\<open>JSON.stringify\<close> of an array of integers: no white space, a comma between elements.\<close>

definition JSON_stringify :: "int list \<Rightarrow> string" where
  "JSON_stringify ids = ''['' @ joinWith '','' (map numberToString ids) @ '']''"

fun splitOn :: "char \<Rightarrow> string \<Rightarrow> string list" where
  "splitOn c [] = [[]]"
| "splitOn c (x # xs) =
     (if x = c then [] # splitOn c xs
      else (case splitOn c xs of w # ws \<Rightarrow> (x # w) # ws | [] \<Rightarrow> [[x]]))"

definition isJsonWhiteSpace :: "char \<Rightarrow> bool" where
  "isJsonWhiteSpace c = (c \<in> set [CHR '' '', CHR 0x09, CHR 0x0A, CHR 0x0D])"

definition trimJson :: "string \<Rightarrow> string" where
  "trimJson s = rev (dropWhile isJsonWhiteSpace (rev (dropWhile isJsonWhiteSpace s)))"

text \<open>A JSON integer literal: no plus sign, no leading zero.\<close>

definition validDigits :: "string \<Rightarrow> bool" where
  "validDigits ds = (ds \<noteq> [] \<and> list_all isDigit ds \<and> (1 < length ds \<longrightarrow> hd ds \<noteq> CHR ''0''))"

definition parseJsonInt :: "string \<Rightarrow> int option" where
  "parseJsonInt s =
     (case s of
        [] \<Rightarrow> None
      | c # r \<Rightarrow>
          if c = CHR ''-'' then (if validDigits r then Some (- int (digitsToNat r)) else None)
          else if validDigits s then Some (int (digitsToNat s)) else None)"

text \<open>
  \<open>JSON.parse\<close> on the texts that denote an array of integers. \<open>None\<close> stands for every
  other outcome: the text is not JSON and \<open>JSON.parse\<close> throws, or it denotes a value that
  is not an array of integers.
\<close>

definition JSON_parse :: "string \<Rightarrow> int list option" where
  "JSON_parse s =
     (case trimJson s of
        [] \<Rightarrow> None
      | c # r \<Rightarrow>
          if c \<noteq> CHR ''['' \<or> r = [] \<or> last r \<noteq> CHR '']'' then None
          else if trimJson (butlast r) = [] then Some []
          else those (map (\<lambda>w. parseJsonInt (trimJson w)) (splitOn CHR '','' (butlast r))))"

datatype js_error = SyntaxError

text \<open>The second effect: it runs after every render in which the selection was set.\<close>

definition persistSelection :: "state \<Rightarrow> state" where
  "persistSelection s = s\<lparr> localStorage := Some (JSON_stringify (selectedArtworkIds s)) \<rparr>"

text \<open>
  The storage read of the first effect. A missing key (\<open>null\<close>) and the empty string are
  falsy and leave the selection alone.
\<close>

definition restoreSelection :: "state \<Rightarrow> js_error + state" where
  "restoreSelection s =
     (case localStorage s of
        None \<Rightarrow> Inr s
      | Some storedSelection \<Rightarrow>
          if storedSelection = [] then Inr s
          else (case JSON_parse storedSelection of
                  None \<Rightarrow> Inl SyntaxError
                | Some ids \<Rightarrow> Inr (s\<lparr> selectedArtworkIds := ids \<rparr>)))"

text \<open>
  The first effect, run at mount and after every render with a new \<open>lazyParams\<close>: it
  calls \<open>fetchArtworks\<close>, which runs up to its \<open>await\<close>, and reads the storage.
\<close>

definition lazyParamsEffect :: "state \<Rightarrow> js_error + state" where
  "lazyParamsEffect s = restoreSelection (fetchArtworks_start s)"

text \<open>
  Mounting the component over a storage that holds \<open>stored\<close>. The effects of the first
  render run in the order they were declared and see that render's values: the first
  effect starts the page load and reads the storage, queueing the stored selection; the
  second writes the first render's empty selection; then the queued selection is applied
  and the second effect runs for it.
\<close>

definition mount :: "string option \<Rightarrow> js_error + state" where
  "mount stored =
     (let s0 = initial_state\<lparr> localStorage := stored \<rparr>
      in case lazyParamsEffect s0 of
           Inl e \<Rightarrow> Inl e
         | Inr s2 \<Rightarrow>
             Inr (persistSelection
                    ((persistSelection (fetchArtworks_start s0))
                       \<lparr> selectedArtworkIds := selectedArtworkIds s2 \<rparr>)))"

text \<open>The transitions that set the selection.\<close>

datatype mutation =
    ToggleRow artwork bool
  | ToggleAll bool
  | Submit
  | NextPage state fetch_result

fun mutate :: "mutation \<Rightarrow> state \<Rightarrow> state" where
  "mutate (ToggleRow rowData checked) s = checkbox_onChange rowData checked s"
| "mutate (ToggleAll checked) s = selectAll_onChange checked s"
| "mutate Submit s = handleSubmit s"
| "mutate (NextPage snap r) s = fetchNextPage_resolve snap r s"

text \<open>
  A render that follows a mutation, with the second effect run: every mutation hands a
  fresh array to \<open>setSelectedArtworkIds\<close>, so the dependency of the effect has changed.
\<close>

definition commit :: "mutation \<Rightarrow> state \<Rightarrow> state" where
  "commit m s = persistSelection (mutate m s)"

section \<open>Renders, effects and requests in flight\<close>

text \<open>
  The running component is its state together with the requests that have not settled
  yet. A call of \<open>fetchNextPage\<close> in flight carries the state of the render it was made
  in, since the function reads \<open>pendingSelection\<close>, \<open>lazyParams\<close> and \<open>totalRecords\<close>
  from there when it resumes.
\<close>

datatype request = PageLoad string | NextPageCall state

record app =
  now :: state
  inflight :: "request list"

definition requestUrl :: "request \<Rightarrow> string" where
  "requestUrl rq =
     (case rq of
        PageLoad url \<Rightarrow> url
      | NextPageCall snap \<Rightarrow> artworksUrl (page (lazyParams snap) + 1) (lazyParams snap))"

definition hasStored :: "state \<Rightarrow> bool" where
  "hasStored s = (case localStorage s of None \<Rightarrow> False | Some t \<Rightarrow> t \<noteq> [])"

text \<open>
  The second and the third effect after a render. \<open>selSet\<close> says that
  \<open>setSelectedArtworkIds\<close> was called for this render: every call in the component
  hands over a fresh array, so the dependency has changed whatever the array holds.
  The pending count is a number and is compared by value with the one of the render
  before, \<open>prevPending\<close>. The third effect calls \<open>fetchNextPage\<close>, which closes over the
  values of this render and runs up to its \<open>await\<close>.
\<close>

definition persistAndWalk :: "int \<Rightarrow> bool \<Rightarrow> app \<Rightarrow> app" where
  "persistAndWalk prevPending selSet a =
     (let s = now a;
          s2 = (if selSet then persistSelection s else s)
      in if (selSet \<or> pendingSelection s \<noteq> prevPending) \<and> pendingSelection s > 0
         then \<lparr> now = fetchNextPage_start s2, inflight = inflight a @ [NextPageCall s] \<rparr>
         else \<lparr> now = s2, inflight = inflight a \<rparr>)"

text \<open>
  All effects after a render, in the order of their declaration. \<open>lazySet\<close> says that
  \<open>setLazyParams\<close> was called for this render (it builds a fresh object). Then the first
  effect starts a page load and reads the storage; what it reads is the text the second
  effect wrote after an earlier render, since the second effect of this render has not
  run yet. The selection it hands to \<open>setSelectedArtworkIds\<close> takes hold in a further
  render, after which the second and third effect run again.
\<close>

definition runEffects :: "int \<Rightarrow> bool \<Rightarrow> bool \<Rightarrow> app \<Rightarrow> js_error + app" where
  "runEffects prevPending selSet lazySet a =
     (if lazySet then
        (case lazyParamsEffect (now a) of
           Inl e \<Rightarrow> Inl e
         | Inr restored \<Rightarrow>
             (let a1 = persistAndWalk prevPending selSet
                         \<lparr> now = fetchArtworks_start (now a),
                           inflight = inflight a
                             @ [PageLoad (artworksUrl (page (lazyParams (now a)))
                                            (lazyParams (now a)))] \<rparr>
              in if hasStored (now a)
                 then Inr (persistAndWalk (pendingSelection (now a1)) True
                             \<lparr> now = (now a1)\<lparr> selectedArtworkIds :=
                                                   selectedArtworkIds restored \<rparr>,
                               inflight = inflight a1 \<rparr>)
                 else Inr a1))
      else Inr (persistAndWalk prevPending selSet a))"

text \<open>Pressing Submit: the handler, the render, the effects.\<close>

definition submitAccepted :: "state \<Rightarrow> bool" where
  "submitAccepted s = (case parseInt (rowSelection s) of None \<Rightarrow> False | Some n \<Rightarrow> 0 \<le> n)"

definition pressSubmit :: "app \<Rightarrow> js_error + app" where
  "pressSubmit a =
     runEffects (pendingSelection (now a)) (submitAccepted (now a)) False
       \<lparr> now = handleSubmit (now a), inflight = inflight a \<rparr>"

text \<open>
  The request at position \<open>i\<close> of those in flight settles with \<open>r\<close>: the function that
  waited for it resumes, the component renders, the effects run.
\<close>

definition settle :: "nat \<Rightarrow> fetch_result \<Rightarrow> app \<Rightarrow> js_error + app" where
  "settle i r a =
     (if i < length (inflight a) then
        (let rest = take i (inflight a) @ drop (Suc i) (inflight a)
         in case inflight a ! i of
              PageLoad url \<Rightarrow>
                runEffects (pendingSelection (now a)) False False
                  \<lparr> now = fetchArtworks_resolve r (now a), inflight = rest \<rparr>
            | NextPageCall snap \<Rightarrow>
                runEffects (pendingSelection (now a))
                  (case r of Ok d \<Rightarrow> True | _ \<Rightarrow> False)
                  (case r of Ok d \<Rightarrow> walkGoesOn snap d | _ \<Rightarrow> False)
                  \<lparr> now = fetchNextPage_resolve snap r (now a), inflight = rest \<rparr>)
      else Inr a)"

text \<open>
  The component left to itself until no request is in flight. The network \<open>net\<close> says,
  for the component as it stands, which request settles next (a position, taken modulo
  the number in flight) and with what result. This may go on for ever, so the result
  is an option; an exception thrown in an effect ends it.
\<close>

partial_function (option) settleAll ::
    "(app \<Rightarrow> nat \<times> fetch_result) \<Rightarrow> app \<Rightarrow> (js_error + app) option"
  where
  "settleAll net a =
     (if inflight a = [] then Some (Inr a)
      else (case settle (fst (net a) mod length (inflight a)) (snd (net a)) a of
              Inl e \<Rightarrow> Some (Inl e)
            | Inr a' \<Rightarrow> settleAll net a'))"

declare settleAll.simps [code]

text \<open>
  A network on which the requests settle in the order they were issued, each as \<open>server\<close>
  answers its URL.
\<close>

definition fifo :: "(string \<Rightarrow> fetch_result) \<Rightarrow> app \<Rightarrow> nat \<times> fetch_result" where
  "fifo server a =
     (case inflight a of
        [] \<Rightarrow> (0, NotOk)
      | rq # rest \<Rightarrow> (0, server (requestUrl rq)))"

text \<open>Submit pressed in state \<open>s\<close> with nothing in flight, and the walk that follows.\<close>

definition submitAndWalk :: "(app \<Rightarrow> nat \<times> fetch_result) \<Rightarrow> state \<Rightarrow> (js_error + app) option" where
  "submitAndWalk net s =
     (case pressSubmit \<lparr> now = s, inflight = [] \<rparr> of
        Inl e \<Rightarrow> Some (Inl e)
      | Inr a \<Rightarrow> settleAll net a)"

text \<open>The selection and the pending count a run ends with.\<close>

definition outcome :: "(js_error + app) option \<Rightarrow> (int list \<times> int) option" where
  "outcome res =
     (case res of
        Some (Inr a) \<Rightarrow> Some (selectedArtworkIds (now a), pendingSelection (now a))
      | _ \<Rightarrow> None)"

text \<open>
  A bound on the requests still to come: a call of \<open>fetchNextPage\<close> in flight can start
  a page load and, through the two renders that follow a page move, two further calls.
\<close>

definition weight :: "request \<Rightarrow> nat" where
  "weight rq = (case rq of PageLoad url \<Rightarrow> 1 | NextPageCall snap \<Rightarrow> 3 ^ (pagesLeft snap + 1))"






section \<open>Example data\<close>

text \<open>
  Three pages of twelve records of a catalogue of one hundred, as the API serves them for
  \<open>limit=12\<close>, and the user's way to a selection that holds a record of page 2 while
  page 1 is displayed.
\<close>

definition artworkWithId :: "int \<Rightarrow> artwork" where
  "artworkWithId i =
     \<lparr> artwork_id = i, title = [], place_of_origin = [], artist_display = [],
       inscriptions = None, date_start = 0, date_end = 0 \<rparr>"

definition example_page1 :: "artwork list" where
  "example_page1 = map artworkWithId [1, 2, 3, 4, 5, 6, 7, 8, 9, 10, 11, 12]"

definition example_page2 :: "artwork list" where
  "example_page2 = map artworkWithId [13, 14, 15, 16, 17, 18, 19, 20, 21, 22, 23, 24]"

definition example_page3 :: "artwork list" where
  "example_page3 = map artworkWithId [25, 26, 27, 28, 29, 30, 31, 32, 33, 34, 35, 36]"

definition example_response :: "artwork list \<Rightarrow> int \<Rightarrow> api_response" where
  "example_response arts p =
     \<lparr> data = arts,
       pagination = \<lparr> total_records = 100, limit = 12, offset = 12 * (p - 1),
                      total_pages = 9, current_page = p \<rparr> \<rparr>"

definition example_server :: "string \<Rightarrow> fetch_result" where
  "example_server url =
     (if url = artworksUrl 1 (lazyParams initial_state)
      then Ok (example_response example_page1 1)
      else if url = artworksUrl 2 (lazyParams initial_state)
      then Ok (example_response example_page2 2)
      else if url = artworksUrl 3 (lazyParams initial_state)
      then Ok (example_response example_page3 3)
      else NotOk)"

text \<open>Page 1 is displayed and nothing is selected.\<close>

definition on_page1 :: state where
  "on_page1 =
     fetchArtworks_resolve (Ok (example_response example_page1 1))
       (fetchArtworks_start initial_state)"

text \<open>
  The user goes to page 2, ticks record 13 there, and comes back to page 1.
\<close>

definition on_page1_with_13 :: state where
  "on_page1_with_13 =
     (let t0 = fetchArtworks_resolve (Ok (example_response example_page2 2))
                 (fetchArtworks_start
                    (onPage \<lparr> ev_first = 12, ev_rows = 12, ev_page = 1 \<rparr> on_page1));
          t1 = checkbox_onChange (artworkWithId 13) True t0
      in fetchArtworks_resolve (Ok (example_response example_page1 1))
           (fetchArtworks_start
              (onPage \<lparr> ev_first = 0, ev_rows = 12, ev_page = 0 \<rparr> t1)))"

section \<open>Decimal text and JSON\<close>

lemma isDigit_char_of: "d < 10 \<Longrightarrow> isDigit (char_of (48 + d :: nat))"
  by (simp add: isDigit_def)

lemma digitValue_char_of: "d < 10 \<Longrightarrow> digitValue (char_of (48 + d :: nat)) = d"
  by (simp add: digitValue_def)

lemma natToString_nonempty: "natToString n \<noteq> []"
  by (subst natToString.simps) simp

lemma natToString_digits: "list_all isDigit (natToString n)"
proof (induction n rule: natToString.induct)
  case (1 n)
  show ?case
  proof (cases "n < 10")
    case True
    then show ?thesis by (subst natToString.simps) (simp add: isDigit_char_of)
  next
    case False
    with 1 show ?thesis by (subst natToString.simps) (simp add: isDigit_char_of)
  qed
qed

lemma digitsToNat_snoc: "digitsToNat (ds @ [c]) = 10 * digitsToNat ds + digitValue c"
  by (simp add: digitsToNat_def)

lemma digitsToNat_natToString: "digitsToNat (natToString n) = n"
proof (induction n rule: natToString.induct)
  case (1 n)
  show ?case
  proof (cases "n < 10")
    case True
    then show ?thesis
      by (subst natToString.simps) (simp add: digitsToNat_def digitValue_char_of)
  next
    case False
    with 1 show ?thesis
      by (subst natToString.simps) (simp add: digitsToNat_snoc digitValue_char_of)
  qed
qed

lemma hd_natToString: "0 < n \<Longrightarrow> hd (natToString n) \<noteq> CHR ''0''"
proof (induction n rule: natToString.induct)
  case (1 n)
  show ?case
  proof (cases "n < 10")
    case True
    have "char_of (48 + n) = CHR ''0'' \<Longrightarrow> n = 0"
    proof -
      assume "char_of (48 + n) = CHR ''0''"
      then have "digitValue (char_of (48 + n)) = digitValue CHR ''0''" by simp
      with True show "n = 0" by (simp add: digitValue_char_of) (simp add: digitValue_def)
    qed
    with True 1(2) show ?thesis by (subst natToString.simps) auto
  next
    case False
    then have "0 < n div 10" by simp
    with 1 False show ?thesis
      by (subst natToString.simps) (simp add: natToString_nonempty)
  qed
qed

lemma length_natToString_gt1: "1 < length (natToString n) \<Longrightarrow> 0 < n"
  by (cases "n = 0") (simp_all add: natToString.simps)

lemma validDigits_natToString: "validDigits (natToString n)"
  unfolding validDigits_def
  using natToString_nonempty natToString_digits hd_natToString length_natToString_gt1
  by blast

lemma isDigit_not_minus: "isDigit c \<Longrightarrow> c \<noteq> CHR ''-''"
  by (auto simp: isDigit_def)

lemma natToString_Cons: "\<exists>c r. natToString n = c # r \<and> isDigit c"
  using natToString_nonempty [of n] natToString_digits [of n]
  by (cases "natToString n") auto

lemma parseJsonInt_numberToString: "parseJsonInt (numberToString i) = Some i"
proof (cases "i < 0")
  case True
  then show ?thesis
    by (simp add: numberToString_def parseJsonInt_def validDigits_natToString
        digitsToNat_natToString)
next
  case False
  obtain c r where cr: "natToString (nat i) = c # r" "isDigit c"
    using natToString_Cons by blast
  have "validDigits (c # r)" using validDigits_natToString [of "nat i"] cr by simp
  moreover have "digitsToNat (c # r) = nat i"
    using digitsToNat_natToString [of "nat i"] cr by simp
  ultimately show ?thesis
    using False cr isDigit_not_minus [of c]
    by (simp add: numberToString_def parseJsonInt_def)
qed


lemma isDigit_not_ws: "isDigit c \<Longrightarrow> \<not> isJsonWhiteSpace c"
  by (auto simp: isDigit_def isJsonWhiteSpace_def)

lemma isDigit_not_comma: "isDigit c \<Longrightarrow> c \<noteq> CHR '',''"
  by (auto simp: isDigit_def)

lemma trimJson_id:
  assumes "s \<noteq> []" "\<not> isJsonWhiteSpace (hd s)" "\<not> isJsonWhiteSpace (last s)"
  shows "trimJson s = s"
proof -
  from assms have "dropWhile isJsonWhiteSpace s = s" by (cases s) auto
  moreover from assms have "dropWhile isJsonWhiteSpace (rev s) = rev s"
    by (cases "rev s") (auto simp: last_rev [symmetric] hd_rev)
  ultimately show ?thesis by (simp add: trimJson_def)
qed

lemma numberToString_nonempty: "numberToString i \<noteq> []"
  by (simp add: numberToString_def natToString_nonempty)

lemma numberToString_chars:
  "c \<in> set (numberToString i) \<Longrightarrow> c = CHR ''-'' \<or> isDigit c"
  using natToString_digits by (auto simp: numberToString_def list_all_iff split: if_splits)

lemma numberToString_no_ws: "c \<in> set (numberToString i) \<Longrightarrow> \<not> isJsonWhiteSpace c"
  using numberToString_chars [of c i] isDigit_not_ws [of c]
  by (auto simp: isJsonWhiteSpace_def)

lemma numberToString_no_comma: "CHR '','' \<notin> set (numberToString i)"
  using numberToString_chars [of "CHR '',''" i] isDigit_not_comma by auto

lemma trimJson_numberToString: "trimJson (numberToString i) = numberToString i"
proof (rule trimJson_id)
  show ne: "numberToString i \<noteq> []" by (rule numberToString_nonempty)
  from ne have "hd (numberToString i) \<in> set (numberToString i)" by (rule hd_in_set)
  then show "\<not> isJsonWhiteSpace (hd (numberToString i))" by (rule numberToString_no_ws)
  from ne have "last (numberToString i) \<in> set (numberToString i)" by (rule last_in_set)
  then show "\<not> isJsonWhiteSpace (last (numberToString i))" by (rule numberToString_no_ws)
qed

lemma splitOn_nonempty: "splitOn c s \<noteq> []"
  by (induction s) (auto split: list.splits)

lemma splitOn_no_sep: "c \<notin> set w \<Longrightarrow> splitOn c w = [w]"
  by (induction w) auto

lemma splitOn_append_sep:
  "c \<notin> set w \<Longrightarrow> splitOn c (w @ c # rest) = w # splitOn c rest"
  by (induction w) (auto split: list.splits)

lemma splitOn_joinWith:
  "ws \<noteq> [] \<Longrightarrow> \<forall>w \<in> set ws. c \<notin> set w \<Longrightarrow> splitOn c (joinWith [c] ws) = ws"
proof (induction "[c]" ws rule: joinWith.induct)
  case 1
  then show ?case by simp
next
  case (2 x)
  then show ?case by (simp add: splitOn_no_sep)
next
  case (3 x y ys)
  then show ?case by (simp add: splitOn_append_sep)
qed

lemma those_map_Some: "those (map Some xs) = Some xs"
  by (induction xs) auto

lemma joinWith_hd:
  "ws \<noteq> [] \<Longrightarrow> hd ws \<noteq> [] \<Longrightarrow> joinWith sep ws \<noteq> [] \<and> hd (joinWith sep ws) = hd (hd ws)"
  by (induction sep ws rule: joinWith.induct) auto

lemma trimJson_nonempty: "s \<noteq> [] \<Longrightarrow> \<not> isJsonWhiteSpace (hd s) \<Longrightarrow> trimJson s \<noteq> []"
proof -
  assume a: "s \<noteq> []" "\<not> isJsonWhiteSpace (hd s)"
  then have d: "dropWhile isJsonWhiteSpace s = s" by (cases s) auto
  have "\<exists>x \<in> set (rev s). \<not> isJsonWhiteSpace x" using a by (cases s) auto
  then have "dropWhile isJsonWhiteSpace (rev s) \<noteq> []" by (simp add: dropWhile_eq_Nil_conv)
  with d show ?thesis by (simp add: trimJson_def)
qed

lemma JSON_roundtrip: "JSON_parse (JSON_stringify ids) = Some ids"
proof -
  let ?body = "joinWith '','' (map numberToString ids)"
  have t: "trimJson (JSON_stringify ids) = CHR ''['' # (?body @ '']'')"
    unfolding JSON_stringify_def
    by (rule trimJson_id [THEN trans]) (simp_all add: isJsonWhiteSpace_def)
  show ?thesis
  proof (cases ids)
    case Nil
    then show ?thesis
      using t by (simp add: JSON_parse_def JSON_stringify_def trimJson_def)
  next
    case (Cons i rest)
    have ne: "map numberToString ids \<noteq> []" using Cons by simp
    have hdne: "hd (map numberToString ids) \<noteq> []"
      using Cons by (simp add: numberToString_nonempty)
    have "\<not> isJsonWhiteSpace (hd (hd (map numberToString ids)))"
      using Cons numberToString_no_ws [of "hd (numberToString i)" i]
      by (simp add: numberToString_nonempty)
    with joinWith_hd [OF ne hdne, of "'',''"] have "trimJson ?body \<noteq> []"
      by (intro trimJson_nonempty) simp_all
    moreover have "splitOn CHR '','' ?body = map numberToString ids"
      by (rule splitOn_joinWith [OF ne]) (auto simp: numberToString_no_comma)
    moreover have "map (\<lambda>w. parseJsonInt (trimJson w)) (map numberToString ids) = map Some ids"
      by (simp add: trimJson_numberToString parseJsonInt_numberToString)
    ultimately have "those (map (\<lambda>w. parseJsonInt (trimJson w)) (splitOn CHR '','' ?body))
        = Some ids \<and> trimJson ?body \<noteq> []"
      by (simp only: those_map_Some simp_thms)
    then show ?thesis
      using t by (simp add: JSON_parse_def)
  qed
qed

lemma JSON_stringify_nonempty: "JSON_stringify ids \<noteq> []"
  by (simp add: JSON_stringify_def)

lemma restore_persist:
  "restoreSelection (t\<lparr> localStorage := localStorage (persistSelection s) \<rparr>)
     = Inr (t\<lparr> localStorage := localStorage (persistSelection s),
                selectedArtworkIds := selectedArtworkIds s \<rparr>)"
  by (simp add: restoreSelection_def persistSelection_def JSON_stringify_nonempty JSON_roundtrip)

lemma mount_persisted:
  "\<exists>s'. mount (localStorage (persistSelection s)) = Inr s'
        \<and> selectedArtworkIds s' = selectedArtworkIds s
        \<and> localStorage s' = localStorage (persistSelection s)"
  by (simp add: mount_def lazyParamsEffect_def Let_def restoreSelection_def persistSelection_def
      fetchArtworks_start_def JSON_stringify_nonempty JSON_roundtrip)

section \<open>The submission of a count\<close>

lemmas example_defs =
  on_page1_with_13_def on_page1_def initial_state_def example_response_def
  example_page1_def example_page2_def artworkWithId_def
  fetchArtworks_resolve_def fetchArtworks_start_def onPage_def checkbox_onChange_def
  rowSelection_onChange_def

lemma slice0_nonneg: "0 \<le> n \<Longrightarrow> slice0 xs n = take (nat n) xs"
  by (simp add: slice0_def)

lemma handleSubmit_valid:
  assumes "parseInt (rowSelection s) = Some n" "0 \<le> n"
  shows "handleSubmit s =
           s\<lparr> selectedArtworkIds :=
                 filter (\<lambda>i. i \<notin> set (pageIds (artworks s))) (selectedArtworkIds s)
                 @ take (nat (min n (int (length (artworks s))))) (pageIds (artworks s)),
              pendingSelection := max 0 (n - int (length (artworks s))),
              selectAll :=
                (int (length (filter (\<lambda>i. i \<notin> set (pageIds (artworks s))) (selectedArtworkIds s)
                 @ take (nat (min n (int (length (artworks s))))) (pageIds (artworks s))))
                  + max 0 (n - int (length (artworks s))) = totalRecords s),
              overlayVisible := False,
              toasts := (if int (length (artworks s)) < n then toasts s @ [pending_toast n]
                         else toasts s) \<rparr>"
  using assms by (simp add: handleSubmit_def Let_def slice0_nonneg pageIds_def)

lemma filter_on_page_take:
  "filter (\<lambda>i. i \<in> set ys) (filter (\<lambda>i. i \<notin> set ys) xs @ take k ys) = take k ys"
proof -
  have "filter (\<lambda>i. i \<in> set ys) (take k ys) = take k ys"
    by (rule filter_True) (auto dest: in_set_takeD)
  then show ?thesis by simp
qed

text \<open>
  C3: a submitted count \<open>n\<close> between 0 and the number of records on the current page
  selects the first \<open>n\<close> identifiers of the page, in the order of the page, after the
  selected identifiers of other pages; the part of the selection that lies on the current
  page is exactly these \<open>n\<close> identifiers, and the pending count is 0.
\<close>

theorem C3_select_within_page:
  assumes "parseInt (rowSelection s) = Some n" and "0 \<le> n"
    and "n \<le> int (length (artworks s))"
  shows "selectedArtworkIds (handleSubmit s)
           = filter (\<lambda>i. i \<notin> set (pageIds (artworks s))) (selectedArtworkIds s)
             @ take (nat n) (pageIds (artworks s))
       \<and> filter (\<lambda>i. i \<in> set (pageIds (artworks s))) (selectedArtworkIds (handleSubmit s))
           = take (nat n) (pageIds (artworks s))
       \<and> int (length (take (nat n) (pageIds (artworks s)))) = n
       \<and> pendingSelection (handleSubmit s) = 0"
proof -
  let ?ids = "pageIds (artworks s)"
  let ?rest = "filter (\<lambda>i. i \<notin> set ?ids) (selectedArtworkIds s)"
  from assms(3) have m: "min n (int (length (artworks s))) = n" by simp
  have sel: "selectedArtworkIds (handleSubmit s) = ?rest @ take (nat n) ?ids"
    by (simp add: handleSubmit_valid [OF assms(1,2)] m)
  have pend: "pendingSelection (handleSubmit s) = 0"
    using assms(3) by (simp add: handleSubmit_valid [OF assms(1,2)])
  have onp: "filter (\<lambda>i. i \<in> set ?ids) (?rest @ take (nat n) ?ids) = take (nat n) ?ids"
    by (rule filter_on_page_take)
  have len: "int (length (take (nat n) ?ids)) = n"
    using assms(2,3) by (simp add: pageIds_def)
  show ?thesis
    unfolding sel using onp len pend by blast
qed

theorem C3_select_within_page_witness:
  "selectedArtworkIds (handleSubmit (rowSelection_onChange (utf16 ''2'') on_page1_with_13)) = [13, 1, 2]
   \<and> pendingSelection (handleSubmit (rowSelection_onChange (utf16 ''2'') on_page1_with_13)) = 0"
  using C3_select_within_page [of "rowSelection_onChange (utf16 ''2'') on_page1_with_13" 2]
  by (simp add: example_defs Let_def pageIds_def parseInt_def utf16_def isWhiteSpace_def
      isDigitUnit_def unitsToNat_def)

lemmas parseInt_eval =
  parseInt_def utf16_def isWhiteSpace_def isDigitUnit_def unitsToNat_def Let_def

text \<open>
  C9: a valid submission replaces the current page's part of the selection. The new
  selection is the old one without the identifiers of the current page, followed by the
  first \<open>min n (page length)\<close> identifiers of the page; identifiers of other pages stay,
  and of the current page exactly those first ones are selected afterwards. No validation
  message is shown, also for \<open>n = 0\<close>, where the page's part becomes empty.
\<close>

theorem C9_submit_replaces_page:
  assumes "parseInt (rowSelection s) = Some n" and "0 \<le> n"
  shows "selectedArtworkIds (handleSubmit s)
           = filter (\<lambda>i. i \<notin> set (pageIds (artworks s))) (selectedArtworkIds s)
             @ take (nat (min n (int (length (artworks s))))) (pageIds (artworks s))
       \<and> set (selectedArtworkIds (handleSubmit s)) - set (pageIds (artworks s))
           = set (selectedArtworkIds s) - set (pageIds (artworks s))
       \<and> set (selectedArtworkIds (handleSubmit s)) \<inter> set (pageIds (artworks s))
           = set (take (nat (min n (int (length (artworks s))))) (pageIds (artworks s)))
       \<and> toasts (handleSubmit s)
           = (if int (length (artworks s)) < n then toasts s @ [pending_toast n]
              else toasts s)"
proof -
  let ?ids = "pageIds (artworks s)"
  let ?k = "nat (min n (int (length (artworks s))))"
  have sel: "selectedArtworkIds (handleSubmit s)
      = filter (\<lambda>i. i \<notin> set ?ids) (selectedArtworkIds s) @ take ?k ?ids"
    by (simp add: handleSubmit_valid [OF assms])
  have sub: "set (take ?k ?ids) \<subseteq> set ?ids" by (rule set_take_subset)
  have off: "set (filter (\<lambda>i. i \<notin> set ?ids) (selectedArtworkIds s) @ take ?k ?ids) - set ?ids
      = set (selectedArtworkIds s) - set ?ids"
    using sub by auto
  have on: "set (filter (\<lambda>i. i \<notin> set ?ids) (selectedArtworkIds s) @ take ?k ?ids) \<inter> set ?ids
      = set (take ?k ?ids)"
    using sub by auto
  have toast: "toasts (handleSubmit s)
      = (if int (length (artworks s)) < n then toasts s @ [pending_toast n] else toasts s)"
    by (simp add: handleSubmit_valid [OF assms])
  show ?thesis unfolding sel using off on toast by blast
qed

theorem C9_submit_replaces_page_witness:
  "selectedArtworkIds
     (handleSubmit (rowSelection_onChange (utf16 ''0'')
        (selectAll_onChange True on_page1_with_13))) = [13]
   \<and> selectedArtworkIds
     (handleSubmit (rowSelection_onChange (utf16 ''3'')
        (selectAll_onChange True on_page1_with_13))) = [13, 1, 2, 3]"
  using C9_submit_replaces_page
          [of "rowSelection_onChange (utf16 ''0'') (selectAll_onChange True on_page1_with_13)" 0]
        C9_submit_replaces_page
          [of "rowSelection_onChange (utf16 ''3'') (selectAll_onChange True on_page1_with_13)" 3]
  by (simp add: example_defs selectAll_onChange_def setToArray_def pageIds_def parseInt_eval)

text \<open>
  C10: unticking a row removes the identifier of that row and nothing else; unticking
  the header checkbox removes the identifiers of the displayed records and nothing else.
  A selected identifier that is not on the current page stays selected.
\<close>

theorem C10_off_page_kept:
  "selectedArtworkIds (checkbox_onChange rowData False s)
     = filter (\<lambda>i. i \<noteq> artwork_id rowData) (selectedArtworkIds s)
   \<and> set (selectedArtworkIds (checkbox_onChange rowData False s))
     = set (selectedArtworkIds s) - {artwork_id rowData}
   \<and> selectedArtworkIds (selectAll_onChange False s)
     = filter (\<lambda>i. i \<notin> set (pageIds (artworks s))) (selectedArtworkIds s)
   \<and> set (selectedArtworkIds (selectAll_onChange False s))
     = set (selectedArtworkIds s) - set (pageIds (artworks s))"
  by (auto simp: checkbox_onChange_def selectAll_onChange_def Let_def)

theorem C10_off_page_kept_witness:
  "selectedArtworkIds (checkbox_onChange (artworkWithId 2) False
      (selectAll_onChange True on_page1_with_13)) = [13, 1, 3, 4, 5, 6, 7, 8, 9, 10, 11, 12]
   \<and> selectedArtworkIds (selectAll_onChange False
      (selectAll_onChange True on_page1_with_13)) = [13]"
  using C10_off_page_kept [of "artworkWithId 2" "selectAll_onChange True on_page1_with_13"]
  by (simp add: example_defs selectAll_onChange_def setToArray_def pageIds_def)


section \<open>Rejected input\<close>

text \<open>
  What the guard of \<open>handleSubmit\<close> rejects: when \<open>parseInt\<close> finds no number at the
  start of the text, or one below zero, the state afterwards is the state before with
  the validation message added.
\<close>

lemma handleSubmit_rejected:
  assumes "parseInt (rowSelection s) = None
           \<or> (\<exists>n. parseInt (rowSelection s) = Some n \<and> n < 0)"
  shows "handleSubmit s = s\<lparr> toasts := toasts s @ [invalid_input_toast] \<rparr>"
  using assms by (auto simp: handleSubmit_def)

text \<open>A no-break space before the digits is skipped like any other white space.\<close>

lemma parseInt_no_break_space: "parseInt (0xA0 # utf16 ''5'') = Some 5"
  by (simp add: parseInt_eval)

text \<open>
  C4: a count that is not a number or is negative should be rejected with a message and
  leave the state alone. The guard looks at the integer that \<open>parseInt\<close> reads, and
  \<open>parseInt\<close> stops at the decimal point: the text \<open>-0.5\<close> denotes a negative number, is
  read as zero and passes the guard, and the submission empties the selection of the
  page without any message.
\<close>

theorem C4_negative_fraction_accepted:
  "selectedArtworkIds (selectAll_onChange True on_page1)
     = [1, 2, 3, 4, 5, 6, 7, 8, 9, 10, 11, 12]
   \<and> selectedArtworkIds
       (handleSubmit (rowSelection_onChange (utf16 ''-0.5'') (selectAll_onChange True on_page1))) = []
   \<and> toasts
       (handleSubmit (rowSelection_onChange (utf16 ''-0.5'') (selectAll_onChange True on_page1))) = []"
  by (simp add: example_defs selectAll_onChange_def setToArray_def handleSubmit_def pageIds_def
      parseInt_eval slice0_def)

section \<open>Failed requests\<close>

text \<open>
  C6: when the request of an accumulation fetch fails (the promise rejects, the
  response is not \<open>ok\<close>, or the body does not parse), the pending count becomes 0, the
  error message is shown, and the selection is what it was; nothing else changes but the
  console.
\<close>

theorem C6_walk_fetch_failure:
  assumes "r = NetworkError \<or> r = NotOk \<or> r = ParseFailure"
  shows "pendingSelection (fetchNextPage_resolve snap r s) = 0
       \<and> toasts (fetchNextPage_resolve snap r s) = toasts s @ [next_page_error_toast]
       \<and> selectedArtworkIds (fetchNextPage_resolve snap r s) = selectedArtworkIds s
       \<and> fetchNextPage_resolve snap r s
           = s\<lparr> console := console s @ [''An error occurred while fetching the next page:''],
                toasts := toasts s @ [next_page_error_toast],
                pendingSelection := 0 \<rparr>"
  using assms by (auto simp: fetchNextPage_resolve_def)

theorem C6_walk_fetch_failure_witness:
  "pendingSelection (handleSubmit (rowSelection_onChange (utf16 ''15'') on_page1)) = 3
   \<and> pendingSelection
       (accumulate NotOk (handleSubmit (rowSelection_onChange (utf16 ''15'') on_page1))) = 0
   \<and> selectedArtworkIds
       (accumulate NotOk (handleSubmit (rowSelection_onChange (utf16 ''15'') on_page1)))
     = [1, 2, 3, 4, 5, 6, 7, 8, 9, 10, 11, 12]"
  using C6_walk_fetch_failure
          [of NotOk "handleSubmit (rowSelection_onChange (utf16 ''15'') on_page1)"
              "fetchNextPage_start (handleSubmit (rowSelection_onChange (utf16 ''15'') on_page1))"]
  by (simp add: accumulate_def fetchNextPage_start_def example_defs handleSubmit_def pageIds_def
      parseInt_eval slice0_def)

text \<open>
  C7: when the request of a page load fails, the error message is shown, the displayed
  records stay what they were (none, when nothing had been loaded), the loading flag is
  cleared, and no request is issued: the list of requests and \<open>lazyParams\<close>, which alone
  starts a page load, are unchanged.
\<close>

theorem C7_page_load_failure:
  assumes "r = NetworkError \<or> r = NotOk \<or> r = ParseFailure"
  shows "artworks (fetchArtworks_resolve r s) = artworks s
       \<and> loading (fetchArtworks_resolve r s) = False
       \<and> toasts (fetchArtworks_resolve r s) = toasts s @ [fetch_error_toast]
       \<and> requests (fetchArtworks_resolve r s) = requests s
       \<and> fetchArtworks_resolve r s
           = s\<lparr> console := console s @ [''An error occurred while fetching artworks:''],
                toasts := toasts s @ [fetch_error_toast],
                loading := False \<rparr>"
  using assms by (auto simp: fetchArtworks_resolve_def)

theorem C7_page_load_failure_witness:
  "artworks (fetchArtworks_resolve NetworkError (fetchArtworks_start initial_state)) = []
   \<and> loading (fetchArtworks_start initial_state)
   \<and> \<not> loading (fetchArtworks_resolve NetworkError (fetchArtworks_start initial_state))
   \<and> artworks (fetchArtworks_resolve NotOk
        (fetchArtworks_start
           (onPage \<lparr> ev_first = 12, ev_rows = 12, ev_page = 1 \<rparr> on_page1))) = example_page1"
  using C7_page_load_failure [of NetworkError "fetchArtworks_start initial_state"]
        C7_page_load_failure [of NotOk
          "fetchArtworks_start (onPage \<lparr> ev_first = 12, ev_rows = 12, ev_page = 1 \<rparr> on_page1)"]
  by (simp add: on_page1_def initial_state_def fetchArtworks_start_def onPage_def
      fetchArtworks_resolve_def example_response_def)

section \<open>The stored selection\<close>

text \<open>
  C5: after the render that follows a mutation, local storage holds the serialised
  selection of that moment; the serialised text parses back to the same list, and
  mounting the component over that storage gives a state with exactly this selection
  and leaves the stored text as it was.
\<close>

theorem C5_persisted_selection:
  "localStorage (commit m s) = Some (JSON_stringify (selectedArtworkIds (mutate m s)))
   \<and> selectedArtworkIds (commit m s) = selectedArtworkIds (mutate m s)
   \<and> JSON_parse (JSON_stringify (selectedArtworkIds (mutate m s)))
       = Some (selectedArtworkIds (mutate m s))
   \<and> (\<exists>s'. mount (localStorage (commit m s)) = Inr s'
           \<and> selectedArtworkIds s' = selectedArtworkIds (mutate m s)
           \<and> localStorage s' = localStorage (commit m s))"
  using mount_persisted [of "mutate m s"]
  by (simp add: commit_def persistSelection_def JSON_roundtrip)

lemma stringify_example: "JSON_stringify [13, 3] = ''[13,3]''"
  by code_simp

theorem C5_persisted_selection_witness:
  "localStorage (commit (ToggleRow (artworkWithId 3) True) on_page1_with_13) = Some ''[13,3]''
   \<and> JSON_parse ''[13,3]'' = Some [13, 3]
   \<and> (\<exists>s'. mount (Some ''[13,3]'') = Inr s' \<and> selectedArtworkIds s' = [13, 3]
           \<and> localStorage s' = Some ''[13,3]'')"
proof -
  have sel: "selectedArtworkIds (mutate (ToggleRow (artworkWithId 3) True) on_page1_with_13)
      = [13, 3]"
    by (simp add: example_defs)
  note c5 = C5_persisted_selection [of "ToggleRow (artworkWithId 3) True" on_page1_with_13,
      unfolded sel stringify_example]
  from c5 have stored:
    "localStorage (commit (ToggleRow (artworkWithId 3) True) on_page1_with_13)
       = Some ''[13,3]''"
    by blast
  from c5 have parsed: "JSON_parse ''[13,3]'' = Some [13, 3]"
    by blast
  from c5 have "\<exists>s'. mount (Some ''[13,3]'') = Inr s' \<and> selectedArtworkIds s' = [13, 3]
      \<and> localStorage s' = Some ''[13,3]''"
    unfolding stored by blast
  with stored parsed show ?thesis by blast
qed

section \<open>The effects after a render\<close>




lemma weight_call:
  "lazyParams snap = lazyParams s \<Longrightarrow> totalRecords snap = totalRecords s \<Longrightarrow>
   weight (NextPageCall snap) = 3 ^ (pagesLeft s + 1)"
  by (simp add: weight_def pagesLeft_def)













section \<open>Termination of the walk\<close>






section \<open>The walk over several pages\<close>

lemma number_texts:
  "numberToString 1 = ''1''" "numberToString 2 = ''2''" "numberToString 3 = ''3''"
  "numberToString 12 = ''12''"
  by code_simp+

lemmas walk_eval =
  outcome_def submitAndWalk_def pressSubmit_def submitAccepted_def settleAll.simps settle_def
  fifo_def
  runEffects_def persistAndWalk_def lazyParamsEffect_def restoreSelection_def hasStored_def
  persistSelection_def walkGoesOn_def requestUrl_def
  fetchNextPage_resolve_def fetchNextPage_start_def handleSubmit_def
  example_defs example_server_def example_page3_def pageIds_def parseInt_eval slice0_def
  artworksUrl_def number_texts Let_def JSON_roundtrip JSON_stringify_nonempty

text \<open>
  The example of the specification: on page 1 of 100 records with page size 12, the count
  15 selects the twelve records of the page, and the walk adds the first three of page 2.
\<close>

lemma walk_example:
  "outcome (submitAndWalk (fifo example_server) (rowSelection_onChange (utf16 ''15'') on_page1))
   = Some ([1, 2, 3, 4, 5, 6, 7, 8, 9, 10, 11, 12, 13, 14, 15], 0)"
  by (simp add: walk_eval)

text \<open>
  C2: a count above the page length should select the page, leave the rest pending, and
  have every further page give its identifiers in order until nothing is pending. On
  page 1 of 100 with nothing selected, the count 24 selects the page and leaves 12
  pending, and the call for page 2 appends 13 to 24; but it also moves
  \<open>lazyParams.page\<close>, so the first effect runs before the second has stored the new
  selection, reads the twelve identifiers stored after the submission and puts them
  back: the walk ends with the twelve identifiers of page 1. The render of that restore
  runs the third effect once more, so with 32 the first eight of page 3 are appended
  twice and page 2 is missing, and with 36 the second call for page 3 takes the pending
  count from 0 to -12.
\<close>

theorem C2_walk_loses_page:
  "selectedArtworkIds (handleSubmit (rowSelection_onChange (utf16 ''24'') on_page1))
     = [1, 2, 3, 4, 5, 6, 7, 8, 9, 10, 11, 12]
   \<and> pendingSelection (handleSubmit (rowSelection_onChange (utf16 ''24'') on_page1)) = 12
   \<and> outcome (submitAndWalk (fifo example_server) (rowSelection_onChange (utf16 ''24'') on_page1))
     = Some ([1, 2, 3, 4, 5, 6, 7, 8, 9, 10, 11, 12], 0)
   \<and> outcome (submitAndWalk (fifo example_server) (rowSelection_onChange (utf16 ''32'') on_page1))
     = Some ([1, 2, 3, 4, 5, 6, 7, 8, 9, 10, 11, 12,
              25, 26, 27, 28, 29, 30, 31, 32, 25, 26, 27, 28, 29, 30, 31, 32], 0)
   \<and> outcome (submitAndWalk (fifo example_server) (rowSelection_onChange (utf16 ''36'') on_page1))
     = Some ([1, 2, 3, 4, 5, 6, 7, 8, 9, 10, 11, 12], - 12)"
  by (simp add: walk_eval)

section \<open>Duplicates in the selection\<close>

text \<open>
  C1: the selection should hold every identifier at most once. \<open>fetchNextPage\<close> appends
  without looking at what is selected: with record 13 of page 2 selected and page 1
  displayed, submitting the count 13 selects page 1 and leaves one pending, and the
  call for page 2 appends 13 a second time.
\<close>

theorem C1_walk_appends_duplicate:
  "distinct (selectedArtworkIds on_page1_with_13)
   \<and> selectedArtworkIds (handleSubmit (rowSelection_onChange (utf16 ''13'') on_page1_with_13))
       = [13, 1, 2, 3, 4, 5, 6, 7, 8, 9, 10, 11, 12]
   \<and> pendingSelection (handleSubmit (rowSelection_onChange (utf16 ''13'') on_page1_with_13)) = 1
   \<and> outcome (submitAndWalk (fifo example_server)
                 (rowSelection_onChange (utf16 ''13'') on_page1_with_13))
       = Some ([13, 1, 2, 3, 4, 5, 6, 7, 8, 9, 10, 11, 12, 13], 0)
   \<and> map_option (\<lambda>res. distinct (fst res))
         (outcome (submitAndWalk (fifo example_server)
                     (rowSelection_onChange (utf16 ''13'') on_page1_with_13)))
       = Some False"
  by (simp add: walk_eval)

text \<open>The other mutations keep a selection free of duplicates.\<close>

lemma distinct_setToArray: "distinct (setToArray xs)"
  by (simp add: setToArray_def)

lemma selection_stays_distinct:
  assumes "distinct (selectedArtworkIds s)"
  shows "distinct (selectedArtworkIds (selectAll_onChange checked s))"
    and "distinct (selectedArtworkIds (checkbox_onChange rowData False s))"
    and "\<not> isSelected s rowData
           \<Longrightarrow> distinct (selectedArtworkIds (checkbox_onChange rowData True s))"
    and "distinct (pageIds (artworks s)) \<Longrightarrow> distinct (selectedArtworkIds (handleSubmit s))"
proof -
  show "distinct (selectedArtworkIds (selectAll_onChange checked s))"
    using assms by (simp add: selectAll_onChange_def distinct_setToArray Let_def)
  show "distinct (selectedArtworkIds (checkbox_onChange rowData False s))"
    using assms by (simp add: checkbox_onChange_def Let_def)
  show "distinct (selectedArtworkIds (checkbox_onChange rowData True s))"
    if "\<not> isSelected s rowData"
    using assms that by (simp add: checkbox_onChange_def isSelected_def Let_def)
  show "distinct (selectedArtworkIds (handleSubmit s))" if d: "distinct (pageIds (artworks s))"
  proof (cases "parseInt (rowSelection s)")
    case None
    then show ?thesis using assms by (simp add: handleSubmit_def)
  next
    case (Some n)
    show ?thesis
    proof (cases "n < 0")
      case True
      then show ?thesis using assms Some by (simp add: handleSubmit_def)
    next
      case False
      then have n0: "0 \<le> n" by simp
      have "set (take (nat (min n (int (length (artworks s))))) (pageIds (artworks s)))
          \<subseteq> set (pageIds (artworks s))"
        by (rule set_take_subset)
      then show ?thesis
        using assms d by (auto simp: handleSubmit_valid [OF Some n0])
    qed
  qed
qed

end
